theory Spec2Isabelle
  imports Main "HOL-Library.Sublist"
begin

section \<open>Domain discovery and component loading of vnext-sys-flow (index.js)\<close>

text \<open>
  The module reads the file system through three calls of Node's \<^verbatim>\<open>fs\<close>
  (\<^verbatim>\<open>readdirSync\<close> with \<^verbatim>\<open>withFileTypes\<close>, \<^verbatim>\<open>existsSync\<close>, \<^verbatim>\<open>readFileSync\<close> with
  \<^verbatim>\<open>'utf8'\<close>), builds paths with \<^verbatim>\<open>path.join\<close>, parses with \<^verbatim>\<open>JSON.parse\<close> and
  writes warnings with \<^verbatim>\<open>console.warn\<close>. The runtime is a record of these functions;
  a thrown exception is the \<open>Inl\<close> of a sum; the console is a list of lines that the
  functions take and return.

  Strings are byte lists. The patterns the code matches (\<^verbatim>\<open>'.'\<close>, \<^verbatim>\<open>'.json'\<close>, the
  reserved names) are ASCII, so matching on the UTF-8 bytes of a name agrees with
  JavaScript's matching on its UTF-16 code units.
\<close>

subsection \<open>Values of the runtime\<close>

datatype js_error =
    SystemError (code: string) (message: string)
  | SyntaxError (message: string)

text \<open>A parsed JSON document. The number type is a parameter: the module never
  computes with a number.\<close>

datatype 'n json =
    JNull
  | JBool bool
  | JNumber 'n
  | JString string
  | JArray "'n json list"
  | JObject "(string \<times> 'n json) list"

datatype dirent_kind = KFile | KDirectory | KSymlink | KOther

record dirent =
  name :: string
  kind :: dirent_kind

definition isDirectory :: "dirent \<Rightarrow> bool" where
  "isDirectory entry = (kind entry = KDirectory)"

definition isFile :: "dirent \<Rightarrow> bool" where
  "isFile entry = (kind entry = KFile)"

record 'n env =
  readdirSync :: "string \<Rightarrow> js_error + dirent list"
  existsSync :: "string \<Rightarrow> bool"
  readFileSync :: "string \<Rightarrow> js_error + string"
  path_join :: "string \<Rightarrow> string \<Rightarrow> string"
  JSON_parse :: "string \<Rightarrow> js_error + 'n json"

type_synonym console = "string list"

text \<open>The object \<^verbatim>\<open>files\<close>: its own enumerable properties.\<close>

type_synonym 'n files = "string \<rightharpoonup> 'n json"

subsection \<open>String methods\<close>

definition startsWith :: "string \<Rightarrow> string \<Rightarrow> bool" where
  "startsWith s p = prefix p s"

definition endsWith :: "string \<Rightarrow> string \<Rightarrow> bool" where
  "endsWith s p = suffix p s"

text \<open>\<^verbatim>\<open>s.replace(pat, rep)\<close> with a string pattern replaces the first occurrence of
  \<^verbatim>\<open>pat\<close> only. (The replacement the module passes is empty, so the \<^verbatim>\<open>$\<close> patterns of
  a replacement string play no part.)\<close>

fun replace :: "string \<Rightarrow> string \<Rightarrow> string \<Rightarrow> string" where
  "replace [] pat rep = (if pat = [] then rep else [])"
| "replace (c # cs) pat rep =
     (if prefix pat (c # cs) then rep @ drop (length pat) (c # cs)
      else c # replace cs pat rep)"

text \<open>\<^verbatim>\<open>files[key] = value\<close> on an object created by \<^verbatim>\<open>{}\<close>. The key
  \<^verbatim>\<open>__proto__\<close> reaches the setter inherited from \<^verbatim>\<open>Object.prototype\<close>, which
  changes the prototype (or nothing) and creates no own property; every other key
  becomes an own property.\<close>

definition obj_set :: "'n files \<Rightarrow> string \<Rightarrow> 'n json \<Rightarrow> 'n files" where
  "obj_set files key v = (if key = ''__proto__'' then files else files(key \<mapsto> v))"

subsection \<open>findDomainDirectory\<close>

fun findDomainLoop :: "'n env \<Rightarrow> dirent list \<Rightarrow> string option" where
  "findDomainLoop env [] = None"
| "findDomainLoop env (entry # entries) =
     (if isDirectory entry \<and>
         \<not> startsWith (name entry) ''.'' \<and>
         name entry \<noteq> ''node_modules'' \<and>
         name entry \<noteq> ''dist''
      then (let domainPath = name entry in
            if existsSync env (path_join env domainPath ''Schemas'') \<or>
               existsSync env (path_join env domainPath ''Workflows'') \<or>
               existsSync env (path_join env domainPath ''Tasks'')
            then Some domainPath
            else findDomainLoop env entries)
      else findDomainLoop env entries)"

definition findDomainDirectory :: "'n env \<Rightarrow> js_error + string option" where
  "findDomainDirectory env =
     (case readdirSync env ''.'' of
        Inl error \<Rightarrow> Inl error
      | Inr entries \<Rightarrow> Inr (findDomainLoop env entries))"

subsection \<open>loadJsonFiles\<close>

definition warning :: "string \<Rightarrow> js_error \<Rightarrow> string" where
  "warning entry_name error =
     ''Warning: Could not load '' @ entry_name @ '': '' @ message error"

text \<open>The body of the \<^verbatim>\<open>try\<close> block: the updated \<^verbatim>\<open>files\<close>, or the exception.\<close>

definition tryLoad :: "'n env \<Rightarrow> string \<Rightarrow> dirent \<Rightarrow> 'n files \<Rightarrow> js_error + 'n files" where
  "tryLoad env dirPath entry files =
     (let filePath = path_join env dirPath (name entry) in
      case readFileSync env filePath of
        Inl error \<Rightarrow> Inl error
      | Inr text \<Rightarrow>
          (case JSON_parse env text of
             Inl error \<Rightarrow> Inl error
           | Inr content \<Rightarrow>
               (let baseName = replace (name entry) ''.json'' [] in
                Inr (obj_set files baseName content))))"

fun loadLoop ::
  "'n env \<Rightarrow> string \<Rightarrow> dirent list \<Rightarrow> 'n files \<times> console \<Rightarrow> 'n files \<times> console" where
  "loadLoop env dirPath [] (files, out) = (files, out)"
| "loadLoop env dirPath (entry # entries) (files, out) =
     (if isFile entry \<and> endsWith (name entry) ''.json''
      then (case tryLoad env dirPath entry files of
              Inr files' \<Rightarrow> loadLoop env dirPath entries (files', out)
            | Inl error \<Rightarrow>
                loadLoop env dirPath entries (files, out @ [warning (name entry) error]))
      else loadLoop env dirPath entries (files, out))"

definition loadJsonFiles ::
  "'n env \<Rightarrow> string \<Rightarrow> console \<Rightarrow> (js_error + 'n files) \<times> console" where
  "loadJsonFiles env dirPath out =
     (if \<not> existsSync env dirPath then (Inr Map.empty, out)
      else (case readdirSync env dirPath of
              Inl error \<Rightarrow> (Inl error, out)
            | Inr entries \<Rightarrow>
                (case loadLoop env dirPath entries (Map.empty, out) of
                   (files, out') \<Rightarrow> (Inr files, out'))))"

subsection \<open>module.exports\<close>

definition getDomainConfig :: "'n env \<Rightarrow> 'n json" where
  "getDomainConfig env =
     (case readFileSync env ''vnext.config.json'' of
        Inl error \<Rightarrow> JNull
      | Inr text \<Rightarrow> (case JSON_parse env text of Inl error \<Rightarrow> JNull | Inr v \<Rightarrow> v))"

text \<open>The six component accessors differ in the subdirectory only. \<^verbatim>\<open>!domainDir\<close>
  holds for \<^verbatim>\<open>null\<close> and for the empty string.\<close>

definition getComponent ::
  "string \<Rightarrow> 'n env \<Rightarrow> console \<Rightarrow> (js_error + 'n files) \<times> console" where
  "getComponent subdir env out =
     (case findDomainDirectory env of
        Inl error \<Rightarrow> (Inl error, out)
      | Inr None \<Rightarrow> (Inr Map.empty, out)
      | Inr (Some domainDir) \<Rightarrow>
          (if domainDir = [] then (Inr Map.empty, out)
           else loadJsonFiles env (path_join env domainDir subdir) out))"

definition getSchemas :: "'n env \<Rightarrow> console \<Rightarrow> (js_error + 'n files) \<times> console" where
  "getSchemas = getComponent ''Schemas''"

definition getWorkflows :: "'n env \<Rightarrow> console \<Rightarrow> (js_error + 'n files) \<times> console" where
  "getWorkflows = getComponent ''Workflows''"

definition getTasks :: "'n env \<Rightarrow> console \<Rightarrow> (js_error + 'n files) \<times> console" where
  "getTasks = getComponent ''Tasks''"

definition getViews :: "'n env \<Rightarrow> console \<Rightarrow> (js_error + 'n files) \<times> console" where
  "getViews = getComponent ''Views''"

definition getFunctions :: "'n env \<Rightarrow> console \<Rightarrow> (js_error + 'n files) \<times> console" where
  "getFunctions = getComponent ''Functions''"

definition getExtensions :: "'n env \<Rightarrow> console \<Rightarrow> (js_error + 'n files) \<times> console" where
  "getExtensions = getComponent ''Extensions''"

definition getAvailableTypes :: "string list" where
  "getAvailableTypes =
     [''schemas'', ''workflows'', ''tasks'', ''views'', ''functions'', ''extensions'']"

definition getDomainName :: "'n env \<Rightarrow> js_error + string option" where
  "getDomainName env = findDomainDirectory env"

text \<open>A call \<^verbatim>\<open>require('./index.js')[accessor]()\<close>: the exported object maps
  each name to its function; the value returned is tagged with its shape.\<close>

datatype accessor =
    GetDomainConfig | GetSchemas | GetWorkflows | GetTasks | GetViews
  | GetFunctions | GetExtensions | GetAvailableTypes | GetDomainName

datatype 'n js_value =
    VJson "'n json"
  | VFiles "'n files"
  | VTypes "string list"
  | VName "string option"

definition returning ::
  "('a \<Rightarrow> 'n js_value) \<Rightarrow> (js_error + 'a) \<times> console \<Rightarrow> (js_error + 'n js_value) \<times> console" where
  "returning tag r = (map_sum id tag (fst r), snd r)"

fun module_exports ::
  "accessor \<Rightarrow> 'n env \<Rightarrow> console \<Rightarrow> (js_error + 'n js_value) \<times> console" where
  "module_exports GetDomainConfig env out = (Inr (VJson (getDomainConfig env)), out)"
| "module_exports GetSchemas env out = returning VFiles (getSchemas env out)"
| "module_exports GetWorkflows env out = returning VFiles (getWorkflows env out)"
| "module_exports GetTasks env out = returning VFiles (getTasks env out)"
| "module_exports GetViews env out = returning VFiles (getViews env out)"
| "module_exports GetFunctions env out = returning VFiles (getFunctions env out)"
| "module_exports GetExtensions env out = returning VFiles (getExtensions env out)"
| "module_exports GetAvailableTypes env out = (Inr (VTypes getAvailableTypes), out)"
| "module_exports GetDomainName env out = returning VName (getDomainName env, out)"

section \<open>A file-system tree behind the runtime\<close>

text \<open>
  The working directory as a tree of regular files and directories, and the POSIX
  runtime over it: relative paths are resolved from the root of the tree, component by
  component as the operating system does; an absolute path, or one that climbs above
  the root, leaves the tree and resolves to nothing.
\<close>

datatype fsnode = File string | Dir "(string \<times> fsnode) list"

fun split_path :: "string \<Rightarrow> string list" where
  "split_path [] = [[]]"
| "split_path (c # cs) =
     (if c = CHR ''/'' then [] # split_path cs
      else (case split_path cs of [] \<Rightarrow> [[c]] | s # ss \<Rightarrow> (c # s) # ss))"

fun lookup :: "fsnode \<Rightarrow> fsnode list \<Rightarrow> string list \<Rightarrow> fsnode option" where
  "lookup n anc [] = Some n"
| "lookup n anc (s # ss) =
     (case n of
        File text \<Rightarrow> None
      | Dir es \<Rightarrow>
          if s = [] \<or> s = ''.'' then lookup n anc ss
          else if s = ''..'' then (case anc of [] \<Rightarrow> None | p # ps \<Rightarrow> lookup p ps ss)
          else (case map_of es s of None \<Rightarrow> None | Some c \<Rightarrow> lookup c (n # anc) ss))"

definition resolve :: "fsnode \<Rightarrow> string \<Rightarrow> fsnode option" where
  "resolve root p =
     (if p = [] \<or> hd p = CHR ''/'' then None else lookup root [] (split_path p))"

subsection \<open>path.join on POSIX\<close>

text \<open>\<^verbatim>\<open>path.join(a, b)\<close> joins the non-empty arguments with a slash and normalises:
  empty and \<^verbatim>\<open>.\<close> segments go, \<^verbatim>\<open>..\<close> removes the segment before it (and stays, in a
  relative path, when there is none), a trailing slash is kept.\<close>

fun join_segments :: "string list \<Rightarrow> string" where
  "join_segments [] = []"
| "join_segments [s] = s"
| "join_segments (s # t # ss) = s @ ''/'' @ join_segments (t # ss)"

fun normalize_segments :: "bool \<Rightarrow> string list \<Rightarrow> string list \<Rightarrow> string list" where
  "normalize_segments allowAboveRoot res [] = rev res"
| "normalize_segments allowAboveRoot res (s # ss) =
     (if s = [] \<or> s = ''.'' then normalize_segments allowAboveRoot res ss
      else if s = ''..'' then
        (if res \<noteq> [] \<and> hd res \<noteq> ''..''
         then normalize_segments allowAboveRoot (tl res) ss
         else if allowAboveRoot then normalize_segments allowAboveRoot (''..'' # res) ss
         else normalize_segments allowAboveRoot res ss)
      else normalize_segments allowAboveRoot (s # res) ss)"

definition normalize :: "string \<Rightarrow> string" where
  "normalize p =
     (if p = [] then ''.''
      else let isAbsolute = (hd p = CHR ''/'');
               trailingSeparator = (last p = CHR ''/'');
               res = join_segments (normalize_segments (\<not> isAbsolute) [] (split_path p))
           in if res = []
              then (if isAbsolute then ''/'' else if trailingSeparator then ''./'' else ''.'')
              else (if isAbsolute then ''/'' else []) @ res @
                   (if trailingSeparator then ''/'' else []))"

definition posix_join :: "string \<Rightarrow> string \<Rightarrow> string" where
  "posix_join a b =
     (let joined = (if a = [] then b else if b = [] then a else a @ ''/'' @ b)
      in if joined = [] then ''.'' else normalize joined)"

subsection \<open>The runtime over a tree\<close>

definition quoted :: "string \<Rightarrow> string" where
  "quoted p = CHR 0x27 # p @ [CHR 0x27]"

definition to_dirent :: "string \<times> fsnode \<Rightarrow> dirent" where
  "to_dirent e =
     \<lparr>name = fst e, kind = (case snd e of File text \<Rightarrow> KFile | Dir es \<Rightarrow> KDirectory)\<rparr>"

definition posix_env :: "(string \<Rightarrow> js_error + 'n json) \<Rightarrow> fsnode \<Rightarrow> 'n env" where
  "posix_env parse root =
     \<lparr>readdirSync = (\<lambda>p. case resolve root p of
          None \<Rightarrow> Inl (SystemError ''ENOENT'' (''ENOENT: no such file or directory, scandir '' @ quoted p))
        | Some (File text) \<Rightarrow> Inl (SystemError ''ENOTDIR'' (''ENOTDIR: not a directory, scandir '' @ quoted p))
        | Some (Dir es) \<Rightarrow> Inr (map to_dirent es)),
      existsSync = (\<lambda>p. resolve root p \<noteq> None),
      readFileSync = (\<lambda>p. case resolve root p of
          None \<Rightarrow> Inl (SystemError ''ENOENT'' (''ENOENT: no such file or directory, open '' @ quoted p))
        | Some (Dir es) \<Rightarrow> Inl (SystemError ''EISDIR'' ''EISDIR: illegal operation on a directory, read'')
        | Some (File text) \<Rightarrow> Inr text),
      path_join = posix_join,
      JSON_parse = parse\<rparr>"

text \<open>Names as a directory holds them: not empty, not \<^verbatim>\<open>.\<close> or \<^verbatim>\<open>..\<close>, without a slash,
  and no name twice in one directory.\<close>

definition entry_name :: "string \<Rightarrow> bool" where
  "entry_name s = (s \<noteq> [] \<and> s \<noteq> ''.'' \<and> s \<noteq> ''..'' \<and> CHR ''/'' \<notin> set s)"

definition wf_listing :: "(string \<times> fsnode) list \<Rightarrow> bool" where
  "wf_listing es = (distinct (map fst es) \<and> list_all entry_name (map fst es))"

subsection \<open>Example runtimes\<close>

text \<open>\<^verbatim>\<open>JSON.parse\<close> on the texts of the examples; any other text is reported as a
  syntax error, and no example reaches one.\<close>

definition sample_parse :: "string \<Rightarrow> js_error + nat json" where
  \<open>sample_parse text =
     (if text = ''{"x":1}'' then Inr (JObject [(''x'', JNumber 1)])
      else if text = ''{"key":"flow1"}'' then Inr (JObject [(''key'', JString ''flow1'')])
      else if text = ''{"domain":"core"}'' then Inr (JObject [(''domain'', JString ''core'')])
      else if text = ''{'' then Inl (SyntaxError ''Unexpected end of JSON input'')
      else Inl (SyntaxError ''Unexpected token''))\<close>

text \<open>A runtime whose working directory cannot be listed.\<close>

definition denied_env :: "nat env" where
  "denied_env =
     \<lparr>readdirSync = (\<lambda>p. Inl (SystemError ''EACCES'' (''EACCES: permission denied, scandir '' @ quoted p))),
      existsSync = (\<lambda>p. False),
      readFileSync = (\<lambda>p. Inl (SystemError ''ENOENT'' (''ENOENT: no such file or directory, open '' @ quoted p))),
      path_join = posix_join,
      JSON_parse = sample_parse\<rparr>"

subsection \<open>Example trees\<close>

definition scenario_root :: fsnode where
  \<open>scenario_root =
     Dir [(''.git'', Dir [(''Tasks'', Dir [])]),
          (''README.md'', File ''# vnext''),
          (''node_modules'', Dir [(''Schemas'', Dir [])]),
          (''docs'', Dir [(''guide.md'', File ''guide'')]),
          (''core'', Dir [(''Workflows'', Dir [(''flow1.json'', File ''{"key":"flow1"}'')])]),
          (''other'', Dir [(''Schemas'', Dir [])]),
          (''vnext.config.json'', File ''{"domain":"core"}'')]\<close>

definition no_domain_root :: fsnode where
  \<open>no_domain_root =
     Dir [(''.cache'', Dir [(''Schemas'', Dir [])]),
          (''dist'', Dir [(''Tasks'', Dir [])]),
          (''node_modules'', Dir [(''Workflows'', Dir [])]),
          (''Schemas'', File ''stray''),
          (''docs'', Dir [(''Views'', Dir [(''v.json'', File ''{"x":1}'')])])]\<close>

definition malformed_config_root :: fsnode where
  \<open>malformed_config_root = Dir [(''vnext.config.json'', File ''{'')]\<close>

definition component_root :: fsnode where
  \<open>component_root =
     Dir [(''core'',
           Dir [(''Schemas'',
                 Dir [(''a.json'', File ''{"x":1}''),
                      (''notes.txt'', File ''{"x":1}''),
                      (''b.json'', File ''{''),
                      (''old.json'', Dir [])])])]\<close>

definition three_files_root :: fsnode where
  \<open>three_files_root =
     Dir [(''core'',
           Dir [(''Schemas'',
                 Dir [(''a.json'', File ''{"x":1}''),
                      (''b.json'', File ''{''),
                      (''c.json'', File ''{"key":"flow1"}'')])])]\<close>

definition suffix_root :: fsnode where
  \<open>suffix_root =
     Dir [(''core'', Dir [(''Schemas'', Dir [(''a.jsonb.json'', File ''{"x":1}'')])])]\<close>

definition marker_file_root :: fsnode where
  \<open>marker_file_root =
     Dir [(''.github'', Dir [(''Schemas'', Dir [])]),
          (''index.js'', File ''module.exports = {}''),
          (''core'', Dir [(''Tasks'', File ''not a directory'')]),
          (''real'', Dir [(''Schemas'', Dir [])])]\<close>

section \<open>The specification's vocabulary\<close>

text \<open>A directory entry the locator considers: a directory that is neither hidden nor
  reserved.\<close>

definition candidate :: "dirent \<Rightarrow> bool" where
  "candidate e =
     (isDirectory e \<and> \<not> startsWith (name e) ''.'' \<and>
      name e \<noteq> ''node_modules'' \<and> name e \<noteq> ''dist'')"

text \<open>One of the three marker paths exists under the entry.\<close>

definition has_marker :: "'n env \<Rightarrow> dirent \<Rightarrow> bool" where
  "has_marker env e =
     (existsSync env (path_join env (name e) ''Schemas'') \<or>
      existsSync env (path_join env (name e) ''Workflows'') \<or>
      existsSync env (path_join env (name e) ''Tasks''))"

text \<open>The locator as the specification words it: the name of the first entry of
  the listing that is considered and has a marker, or nothing.\<close>

definition locateDomain :: "'n env \<Rightarrow> dirent list \<Rightarrow> string option" where
  "locateDomain env entries =
     map_option name (find (\<lambda>e. candidate e \<and> has_marker env e) entries)"

text \<open>An entry the loader reads: a regular file whose name ends in \<^verbatim>\<open>.json\<close>.\<close>

definition json_file :: "dirent \<Rightarrow> bool" where
  "json_file e = (isFile e \<and> endsWith (name e) ''.json'')"

text \<open>Reading and parsing the file of an entry: the parsed value, or the exception of
  the read or of the parse.\<close>

definition read_json :: "'n env \<Rightarrow> string \<Rightarrow> dirent \<Rightarrow> js_error + 'n json" where
  "read_json env dirPath e =
     (case readFileSync env (path_join env dirPath (name e)) of
        Inl error \<Rightarrow> Inl error
      | Inr text \<Rightarrow> JSON_parse env text)"

definition loads :: "'n env \<Rightarrow> string \<Rightarrow> dirent \<Rightarrow> bool" where
  "loads env dirPath e = (json_file e \<and> \<not> isl (read_json env dirPath e))"

definition fails :: "'n env \<Rightarrow> string \<Rightarrow> dirent \<Rightarrow> bool" where
  "fails env dirPath e = (json_file e \<and> isl (read_json env dirPath e))"

text \<open>The key the loader computes for an entry.\<close>

definition stem :: "dirent \<Rightarrow> string" where
  "stem e = replace (name e) ''.json'' []"

text \<open>What a file that loads adds to the mapping, and what a file that fails prints.\<close>

definition store :: "'n env \<Rightarrow> string \<Rightarrow> 'n files \<Rightarrow> dirent \<Rightarrow> 'n files" where
  "store env dirPath files e =
     obj_set files (replace (name e) ''.json'' []) (projr (read_json env dirPath e))"

definition warning_for :: "'n env \<Rightarrow> string \<Rightarrow> dirent \<Rightarrow> string" where
  "warning_for env dirPath e = warning (name e) (projl (read_json env dirPath e))"

section \<open>Properties\<close>

lemmas posix_eval = posix_env_def resolve_def posix_join_def normalize_def to_dirent_def
  isDirectory_def isFile_def startsWith_def endsWith_def suffix_to_prefix Let_def

lemmas accessor_defs = getDomainName_def getSchemas_def getWorkflows_def getTasks_def
  getViews_def getFunctions_def getExtensions_def getComponent_def

lemma scenario_readdir:
  "readdirSync (posix_env sample_parse scenario_root) ''.'' =
     Inr [\<lparr>name = ''.git'', kind = KDirectory\<rparr>, \<lparr>name = ''README.md'', kind = KFile\<rparr>,
          \<lparr>name = ''node_modules'', kind = KDirectory\<rparr>, \<lparr>name = ''docs'', kind = KDirectory\<rparr>,
          \<lparr>name = ''core'', kind = KDirectory\<rparr>, \<lparr>name = ''other'', kind = KDirectory\<rparr>,
          \<lparr>name = ''vnext.config.json'', kind = KFile\<rparr>]"
  by (simp add: posix_eval scenario_root_def)

lemma no_domain_readdir:
  "readdirSync (posix_env sample_parse no_domain_root) ''.'' =
     Inr [\<lparr>name = ''.cache'', kind = KDirectory\<rparr>, \<lparr>name = ''dist'', kind = KDirectory\<rparr>,
          \<lparr>name = ''node_modules'', kind = KDirectory\<rparr>, \<lparr>name = ''Schemas'', kind = KFile\<rparr>,
          \<lparr>name = ''docs'', kind = KDirectory\<rparr>]"
  by (simp add: posix_eval no_domain_root_def)

subsection \<open>The domain locator\<close>

lemma findDomainLoop_find: "findDomainLoop env entries = locateDomain env entries"
  by (induction entries) (auto simp: locateDomain_def candidate_def has_marker_def Let_def)

lemma findDomainLoop_None:
  "(\<forall>e \<in> set entries. candidate e \<longrightarrow> \<not> has_marker env e) \<Longrightarrow>
   findDomainLoop env entries = None"
  by (induction entries) (auto simp: candidate_def has_marker_def Let_def)

text \<open>
  C1. On every listing of the working directory, findDomainDirectory goes through
  the entries in order, passes over every entry that is not a directory, is hidden, or
  is named node_modules or dist, and returns the name of the first remaining entry under
  which one of the paths Schemas, Workflows, Tasks exists; it returns null when there is
  no such entry.
\<close>

theorem findDomainDirectory_first_match:
  "readdirSync env ''.'' = Inr entries \<Longrightarrow>
   findDomainDirectory env = Inr (locateDomain env entries)"
  by (simp add: findDomainDirectory_def findDomainLoop_find)

theorem findDomainDirectory_first_match_witness:
  "findDomainDirectory (posix_env sample_parse scenario_root) = Inr (Some ''core'') \<and>
   getWorkflows (posix_env sample_parse scenario_root) [] =
     (Inr [''flow1'' \<mapsto> JObject [(''key'', JString ''flow1'')]], [])"
proof -
  from findDomainDirectory_first_match [OF scenario_readdir]
  have found: "findDomainDirectory (posix_env sample_parse scenario_root) = Inr (Some ''core'')"
    by (simp add: locateDomain_def candidate_def has_marker_def posix_eval scenario_root_def)
  then show ?thesis
    by (simp add: getWorkflows_def getComponent_def loadJsonFiles_def tryLoad_def obj_set_def
        sample_parse_def posix_eval scenario_root_def)
qed

text \<open>
  C3. When the working directory can be listed and none of its non-hidden,
  non-reserved subdirectories has a Schemas, Workflows or Tasks path, getDomainName
  returns null and each of the six component accessors returns an empty mapping (and
  prints nothing).
\<close>

theorem no_domain_empty_results:
  assumes "readdirSync env ''.'' = Inr entries"
      and "\<forall>e \<in> set entries. candidate e \<longrightarrow> \<not> has_marker env e"
  shows "getDomainName env = Inr None \<and>
         getSchemas env out = (Inr Map.empty, out) \<and>
         getWorkflows env out = (Inr Map.empty, out) \<and>
         getTasks env out = (Inr Map.empty, out) \<and>
         getViews env out = (Inr Map.empty, out) \<and>
         getFunctions env out = (Inr Map.empty, out) \<and>
         getExtensions env out = (Inr Map.empty, out)"
proof -
  have "findDomainDirectory env = Inr None"
    using assms by (simp add: findDomainDirectory_def findDomainLoop_None)
  then show ?thesis
    by (simp add: accessor_defs)
qed

theorem no_domain_empty_results_witness:
  "getDomainName (posix_env sample_parse no_domain_root) = Inr None \<and>
   getSchemas (posix_env sample_parse no_domain_root) [] = (Inr Map.empty, []) \<and>
   getViews (posix_env sample_parse no_domain_root) [] = (Inr Map.empty, [])"
proof -
  have "\<forall>e \<in> set [\<lparr>name = ''.cache'', kind = KDirectory\<rparr>, \<lparr>name = ''dist'', kind = KDirectory\<rparr>,
          \<lparr>name = ''node_modules'', kind = KDirectory\<rparr>, \<lparr>name = ''Schemas'', kind = KFile\<rparr>,
          \<lparr>name = ''docs'', kind = KDirectory\<rparr>].
        candidate e \<longrightarrow> \<not> has_marker (posix_env sample_parse no_domain_root) e"
    by (simp add: candidate_def has_marker_def posix_eval no_domain_root_def)
  from no_domain_empty_results [OF no_domain_readdir this, of "[]"]
  show ?thesis by simp
qed

text \<open>
  C7. When listing the working directory throws, getDomainName and each of the six
  component accessors throw the same error: none of them catches it and returns null or
  an empty mapping.
\<close>

theorem unreadable_working_directory_propagates:
  assumes "readdirSync env ''.'' = Inl error"
  shows "getDomainName env = Inl error \<and>
         getSchemas env out = (Inl error, out) \<and>
         getWorkflows env out = (Inl error, out) \<and>
         getTasks env out = (Inl error, out) \<and>
         getViews env out = (Inl error, out) \<and>
         getFunctions env out = (Inl error, out) \<and>
         getExtensions env out = (Inl error, out)"
proof -
  have "findDomainDirectory env = Inl error"
    using assms by (simp add: findDomainDirectory_def)
  then show ?thesis
    by (simp add: accessor_defs)
qed

theorem unreadable_working_directory_propagates_witness:
  "getDomainName denied_env =
     Inl (SystemError ''EACCES'' (''EACCES: permission denied, scandir '' @ quoted ''.'')) \<and>
   getSchemas denied_env [] =
     (Inl (SystemError ''EACCES'' (''EACCES: permission denied, scandir '' @ quoted ''.'')), [])"
proof -
  have h: "readdirSync denied_env ''.'' =
      Inl (SystemError ''EACCES'' (''EACCES: permission denied, scandir '' @ quoted ''.''))"
    by (simp add: denied_env_def)
  from unreadable_working_directory_propagates [OF h, of "[]"] show ?thesis by simp
qed

lemma split_path_plain: "CHR ''/'' \<notin> set s \<Longrightarrow> split_path s = [s]"
  by (induction s) auto

lemma split_path_slash:
  "CHR ''/'' \<notin> set a \<Longrightarrow> split_path (a @ CHR ''/'' # b) = a # split_path b"
  by (induction a) auto

lemma posix_join_entry:
  assumes "entry_name d" and "entry_name m"
  shows "posix_join d m = d @ ''/'' @ m"
proof -
  from assms have sp: "split_path (d @ ''/'' @ m) = [d, m]"
    by (simp add: entry_name_def split_path_slash split_path_plain)
  from assms have "hd (d @ ''/'' @ m) \<noteq> CHR ''/''" "last (d @ ''/'' @ m) \<noteq> CHR ''/''"
    by (auto simp: entry_name_def hd_append dest: hd_in_set last_in_set)
  with assms sp show ?thesis
    by (simp add: posix_join_def normalize_def entry_name_def Let_def)
qed

lemma resolve_child:
  assumes "entry_name d" and "entry_name m"
      and "map_of es d = Some (Dir sub)" and "map_of sub m = Some c"
  shows "resolve (Dir es) (d @ ''/'' @ m) = Some c"
proof -
  from assms(1,2) have sp: "split_path (d @ ''/'' @ m) = [d, m]"
    by (simp add: entry_name_def split_path_slash split_path_plain)
  from assms(1) have "hd (d @ ''/'' @ m) \<noteq> CHR ''/''"
    by (auto simp: entry_name_def hd_append dest: hd_in_set)
  with assms sp show ?thesis
    by (simp add: resolve_def entry_name_def)
qed

lemma resolve_cwd: "resolve (Dir es) ''.'' = Some (Dir es)"
  by (simp add: resolve_def)

lemma findDomainLoop_skip:
  "\<forall>e \<in> set pre. \<not> candidate e \<Longrightarrow>
   findDomainLoop env (pre @ rest) = findDomainLoop env rest"
  by (induction pre) (auto simp: candidate_def)


text \<open>
  C10. In a working directory whose first non-hidden, non-reserved subdirectory
  holds an entry named Schemas, Workflows or Tasks that is a regular file,
  findDomainDirectory, and with it getDomainName, returns that subdirectory: the marker
  test asks only whether the path exists.
\<close>

theorem marker_file_selects_domain:
  assumes wf: "wf_listing (pre @ (d, Dir sub) # post)"
      and pre: "\<forall>e \<in> set pre. \<not> candidate (to_dirent e)"
      and cand: "candidate (to_dirent (d, Dir sub))"
      and marker: "m = ''Schemas'' \<or> m = ''Workflows'' \<or> m = ''Tasks''"
      and isfile: "(m, File text) \<in> set sub"
  shows "findDomainDirectory (posix_env parse (Dir (pre @ (d, Dir sub) # post))) = Inr (Some d) \<and>
         getDomainName (posix_env parse (Dir (pre @ (d, Dir sub) # post))) = Inr (Some d)"
proof -
  let ?es = "pre @ (d, Dir sub) # post"
  let ?E = "posix_env parse (Dir ?es)"
  from wf have d: "entry_name d"
    by (simp add: wf_listing_def)
  from wf have "distinct (map fst ?es)"
    by (simp add: wf_listing_def)
  then have look: "map_of ?es d = Some (Dir sub)"
    by (rule map_of_is_SomeI) simp
  from marker have m: "entry_name m"
    by (auto simp: entry_name_def)
  from isfile obtain c where c: "map_of sub m = Some c"
    by (metis weak_map_of_SomeI)
  from d m look c have "resolve (Dir ?es) (posix_join d m) = Some c"
    by (simp only: posix_join_entry resolve_child)
  then have ex: "existsSync ?E (path_join ?E d m)"
    by (simp add: posix_env_def)
  have rd: "readdirSync ?E ''.'' = Inr (map to_dirent pre @ to_dirent (d, Dir sub) # map to_dirent post)"
    by (simp add: posix_env_def resolve_cwd)
  have nm: "name (to_dirent (d, Dir sub)) = d"
    by (simp add: to_dirent_def)
  from pre have "findDomainLoop ?E (map to_dirent pre @ to_dirent (d, Dir sub) # map to_dirent post) =
      findDomainLoop ?E (to_dirent (d, Dir sub) # map to_dirent post)"
    by (intro findDomainLoop_skip) simp
  also from cand ex marker nm have "\<dots> = Some d"
    by (auto simp: candidate_def Let_def)
  finally show ?thesis
    using rd by (simp add: findDomainDirectory_def getDomainName_def)
qed

theorem marker_file_selects_domain_witness:
  "findDomainDirectory (posix_env sample_parse marker_file_root) = Inr (Some ''core'') \<and>
   getDomainName (posix_env sample_parse marker_file_root) = Inr (Some ''core'')"
proof -
  have wf: "wf_listing ([(''.github'', Dir [(''Schemas'', Dir [])]),
                         (''index.js'', File ''module.exports = {}'')] @
                        (''core'', Dir [(''Tasks'', File ''not a directory'')]) #
                        [(''real'', Dir [(''Schemas'', Dir [])])])"
    by (simp add: wf_listing_def entry_name_def)
  have pre: "\<forall>e \<in> set [(''.github'', Dir [(''Schemas'', Dir [])]),
                         (''index.js'', File ''module.exports = {}'')]. \<not> candidate (to_dirent e)"
    by (simp add: candidate_def to_dirent_def isDirectory_def startsWith_def)
  have cand: "candidate (to_dirent (''core'', Dir [(''Tasks'', File ''not a directory'')]))"
    by (simp add: candidate_def to_dirent_def isDirectory_def startsWith_def)
  have isfile: "(''Tasks'', File ''not a directory'') \<in> set [(''Tasks'', File ''not a directory'')]"
    by simp
  from marker_file_selects_domain [OF wf pre cand _ isfile, of sample_parse]
  show ?thesis by (simp add: marker_file_root_def)
qed

subsection \<open>The component loader\<close>

text \<open>
  C4. For every path that does not exist, loadJsonFiles returns an empty mapping and
  throws nothing.
\<close>

theorem loadJsonFiles_missing_directory:
  "\<not> existsSync env dirPath \<Longrightarrow> loadJsonFiles env dirPath out = (Inr Map.empty, out)"
  by (simp add: loadJsonFiles_def)

theorem loadJsonFiles_missing_directory_witness:
  "\<not> existsSync (posix_env sample_parse scenario_root) ''core/Views'' \<and>
   loadJsonFiles (posix_env sample_parse scenario_root) ''core/Views'' [] = (Inr Map.empty, [])"
proof -
  have h: "\<not> existsSync (posix_env sample_parse scenario_root) ''core/Views''"
    by (simp add: posix_eval scenario_root_def)
  from h loadJsonFiles_missing_directory [OF h, of "[]"] show ?thesis by simp
qed

lemma tryLoad_read_json:
  "tryLoad env dirPath e files =
     (case read_json env dirPath e of
        Inl error \<Rightarrow> Inl error
      | Inr v \<Rightarrow> Inr (obj_set files (replace (name e) ''.json'' []) v))"
  by (simp add: tryLoad_def read_json_def Let_def split: sum.splits)

lemma loadLoop_eq:
  "loadLoop env dirPath entries (files, out) =
     (foldl (store env dirPath) files (filter (loads env dirPath) entries),
      out @ map (warning_for env dirPath) (filter (fails env dirPath) entries))"
proof (induction entries arbitrary: files out)
  case Nil
  show ?case by simp
next
  case (Cons e entries)
  show ?case
  proof (cases "json_file e")
    case False
    then have "\<not> loads env dirPath e" "\<not> fails env dirPath e"
      by (simp_all add: loads_def fails_def)
    moreover from False
    have "loadLoop env dirPath (e # entries) (files, out) = loadLoop env dirPath entries (files, out)"
      by (auto simp: json_file_def)
    ultimately show ?thesis
      using Cons.IH [of files out] by simp
  next
    case True
    then have guard: "isFile e \<and> endsWith (name e) ''.json''"
      by (simp add: json_file_def)
    show ?thesis
    proof (cases "read_json env dirPath e")
      case (Inl error)
      with True have "\<not> loads env dirPath e" "fails env dirPath e"
        by (simp_all add: loads_def fails_def)
      moreover from Inl have "warning_for env dirPath e = warning (name e) error"
        by (simp add: warning_for_def)
      ultimately show ?thesis
        using guard Inl Cons.IH [of files "out @ [warning (name e) error]"]
        by (simp add: tryLoad_read_json)
    next
      case (Inr v)
      with True have "loads env dirPath e" "\<not> fails env dirPath e"
        by (simp_all add: loads_def fails_def)
      moreover from Inr have "store env dirPath files e =
          obj_set files (replace (name e) ''.json'' []) v"
        by (simp add: store_def)
      ultimately show ?thesis
        using guard Inr Cons.IH [of "obj_set files (replace (name e) ''.json'' []) v" out]
        by (simp add: tryLoad_read_json)
    qed
  qed
qed

lemma loadJsonFiles_eq:
  assumes "existsSync env dirPath" and "readdirSync env dirPath = Inr entries"
  shows "loadJsonFiles env dirPath out =
     (Inr (foldl (store env dirPath) Map.empty (filter (loads env dirPath) entries)),
      out @ map (warning_for env dirPath) (filter (fails env dirPath) entries))"
  using assms by (simp add: loadJsonFiles_def loadLoop_eq)

lemma loadJsonFiles_console:
  "loadJsonFiles env dirPath out =
     (fst (loadJsonFiles env dirPath []), out @ snd (loadJsonFiles env dirPath []))"
  by (simp add: loadJsonFiles_def loadLoop_eq split: sum.splits)

lemma getComponent_console:
  "getComponent subdir env out =
     (fst (getComponent subdir env []), out @ snd (getComponent subdir env []))"
  using loadJsonFiles_console [of env _ out]
  by (simp add: getComponent_def split: sum.splits option.splits)

lemma getComponent_result_console:
  "fst (getComponent subdir env out') = fst (getComponent subdir env out)"
  using getComponent_console [of subdir env out'] getComponent_console [of subdir env out]
  by (metis fst_conv)

lemma suffix_json_after_json:
  assumes "suffix ''.json'' (''.json'' @ r)" and "CHR ''.'' \<notin> set r"
  shows "r = []"
proof -
  from assms(1) have "suffix ''.json'' r \<or> (\<exists>xs'. ''.json'' = xs' @ r \<and> suffix xs' ''.json'')"
    by (simp only: suffix_append)
  then show ?thesis
  proof
    assume "suffix ''.json'' r"
    then have "set ''.json'' \<subseteq> set r" by (rule set_mono_suffix)
    with assms(2) show ?thesis by simp
  next
    assume "\<exists>xs'. ''.json'' = xs' @ r \<and> suffix xs' ''.json''"
    then obtain xs' where x: "''.json'' = xs' @ r" and sx: "suffix xs' ''.json''" by blast
    with assms(2) show ?thesis
      by (auto simp: Cons_eq_append_conv suffix_Cons)
  qed
qed

lemma dotless_stem:
  "replace n ''.json'' [] = k \<Longrightarrow> suffix ''.json'' n \<Longrightarrow> CHR ''.'' \<notin> set k \<Longrightarrow>
   n = k @ ''.json''"
proof (induction n arbitrary: k)
  case Nil
  then show ?case by simp
next
  case (Cons c cs)
  show ?case
  proof (cases "prefix ''.json'' (c # cs)")
    case True
    then obtain r where r: "c # cs = ''.json'' @ r"
      by (auto simp: prefix_def)
    with Cons.prems(1) True have k: "k = r" by simp
    from Cons.prems(2) r have "suffix ''.json'' (''.json'' @ r)" by simp
    with Cons.prems(3) k have "r = []" by (simp add: suffix_json_after_json)
    with r k show ?thesis by simp
  next
    case False
    with Cons.prems(1) have k: "k = c # replace cs ''.json'' []" by auto
    with Cons.prems(3) have "c \<noteq> CHR ''.''" by auto
    with Cons.prems(2) have "suffix ''.json'' cs"
      by (auto simp: suffix_Cons)
    with Cons.IH [of "replace cs ''.json'' []"] k Cons.prems(3)
    show ?thesis by auto
  qed
qed

lemma store_apply:
  "store env d files e k =
     (if stem e = k \<and> k \<noteq> ''__proto__'' then Some (projr (read_json env d e)) else files k)"
  by (simp add: store_def obj_set_def stem_def)

lemma foldl_store_other:
  "k \<notin> stem ` set es \<Longrightarrow> foldl (store env d) files es k = files k"
  by (induction es rule: rev_induct) (auto simp: store_apply)

lemma foldl_store_key:
  assumes "k \<noteq> ''__proto__''"
      and "\<exists>e \<in> set es. stem e = k"
      and "\<forall>e \<in> set es. stem e = k \<longrightarrow> projr (read_json env d e) = v"
  shows "foldl (store env d) files es k = Some v"
  using assms(2,3)
proof (induction es rule: rev_induct)
  case Nil
  then show ?case by simp
next
  case (snoc e es)
  have step: "foldl (store env d) files (es @ [e]) k =
      (if stem e = k \<and> k \<noteq> ''__proto__'' then Some (projr (read_json env d e))
       else foldl (store env d) files es k)"
    by (simp only: foldl_append foldl.simps store_apply)
  show ?case
  proof (cases "stem e = k")
    case True
    with snoc.prems assms(1) step show ?thesis
      by simp
  next
    case False
    with snoc.prems have "\<exists>e \<in> set es. stem e = k" by auto
    with snoc.IH snoc.prems have "foldl (store env d) files es k = Some v" by simp
    with False step show ?thesis
      by simp
  qed
qed
lemma stem_json_file:
  "json_file e \<Longrightarrow> stem e = k \<Longrightarrow> CHR ''.'' \<notin> set k \<Longrightarrow> name e = k @ ''.json''"
  by (simp add: json_file_def endsWith_def stem_def dotless_stem)

lemma a_valid_b_invalid:
  assumes a_in: "\<lparr>name = ''a.json'', kind = KFile\<rparr> \<in> set entries"
      and b_in: "\<lparr>name = ''b.json'', kind = KFile\<rparr> \<in> set entries"
      and ra: "readFileSync env (path_join env dirPath ''a.json'') = Inr ta"
      and pa: "JSON_parse env ta = Inr v"
      and rb: "readFileSync env (path_join env dirPath ''b.json'') = Inr tb"
      and pb: "JSON_parse env tb = Inl err"
  defines "files \<equiv> foldl (store env dirPath) Map.empty (filter (loads env dirPath) entries)"
      and "ws \<equiv> map (warning_for env dirPath) (filter (fails env dirPath) entries)"
  shows "files ''a'' = Some v" and "files ''b'' = None" and "warning ''b.json'' err \<in> set ws"
    and "(\<forall>e \<in> set entries. json_file e \<longrightarrow> name e = ''a.json'' \<or> name e = ''b.json'') \<Longrightarrow>
         files = [''a'' \<mapsto> v] \<and> set ws = {warning ''b.json'' err}"
proof -
  have read_a: "read_json env dirPath e = Inr v" if "name e = ''a.json''" for e
    using that ra pa by (simp add: read_json_def)
  have read_b: "read_json env dirPath e = Inl err" if "name e = ''b.json''" for e
    using that rb pb by (simp add: read_json_def)
  have a_loads: "loads env dirPath \<lparr>name = ''a.json'', kind = KFile\<rparr>"
    by (simp add: loads_def json_file_def isFile_def endsWith_def read_a suffix_def)
  have b_fails: "fails env dirPath \<lparr>name = ''b.json'', kind = KFile\<rparr>"
    by (simp add: fails_def json_file_def isFile_def endsWith_def read_b suffix_def)
  have stem_a: "name e = ''a.json''" if "loads env dirPath e" "stem e = ''a''" for e
    using that stem_json_file [of e "''a''"] by (simp add: loads_def)
  have stem_b: "stem e \<noteq> ''b''" if "loads env dirPath e" for e
  proof
    assume "stem e = ''b''"
    with that stem_json_file [of e "''b''"] have "name e = ''b.json''"
      by (simp add: loads_def)
    with that read_b show False by (simp add: loads_def)
  qed
  show fa: "files ''a'' = Some v"
    unfolding files_def
  proof (rule foldl_store_key)
    show "''a'' \<noteq> ''__proto__''" by simp
    show "\<exists>e \<in> set (filter (loads env dirPath) entries). stem e = ''a''"
      using a_in a_loads by (auto simp: stem_def intro!: bexI [of _ "\<lparr>name = ''a.json'', kind = KFile\<rparr>"])
    show "\<forall>e \<in> set (filter (loads env dirPath) entries).
            stem e = ''a'' \<longrightarrow> projr (read_json env dirPath e) = v"
      using stem_a read_a by auto
  qed
  have "''b'' \<notin> stem ` set (filter (loads env dirPath) entries)"
    using stem_b by force
  then show "files ''b'' = None"
    unfolding files_def by (simp add: foldl_store_other)
  show wb: "warning ''b.json'' err \<in> set ws"
    unfolding ws_def using b_in b_fails read_b [of "\<lparr>name = ''b.json'', kind = KFile\<rparr>"]
    by (auto simp: warning_for_def image_iff intro!: bexI [of _ "\<lparr>name = ''b.json'', kind = KFile\<rparr>"])
  assume only: "\<forall>e \<in> set entries. json_file e \<longrightarrow> name e = ''a.json'' \<or> name e = ''b.json''"
  have loads_a: "name e = ''a.json''" if "e \<in> set entries" "loads env dirPath e" for e
    using that only read_b [of e] by (auto simp: loads_def)
  have fails_b: "name e = ''b.json''" if "e \<in> set entries" "fails env dirPath e" for e
    using that only read_a [of e] by (auto simp: fails_def)
  have "files k = [''a'' \<mapsto> v] k" for k
  proof (cases "k = ''a''")
    case True
    with fa show ?thesis by simp
  next
    case False
    have "k \<notin> stem ` set (filter (loads env dirPath) entries)"
      using False loads_a by (auto simp: stem_def)
    then have "files k = None"
      unfolding files_def by (simp add: foldl_store_other)
    with False show ?thesis by simp
  qed
  then have "files = [''a'' \<mapsto> v]" by (rule ext)
  moreover have "set ws \<subseteq> {warning ''b.json'' err}"
    unfolding ws_def using fails_b read_b by (auto simp: warning_for_def)
  ultimately show "files = [''a'' \<mapsto> v] \<and> set ws = {warning ''b.json'' err}"
    using wb by auto
qed

text \<open>
  C2, amended. When the directory exists and can be listed, loadJsonFiles throws
  nothing: it returns the mapping built from the files that are read and parsed, in the
  order of the listing, exactly as if the failing files were not there, and prints one
  warning for each failing file. When the entries include a regular file a.json that is
  read and parses to a value and a regular file b.json that is read and does not parse,
  the mapping has that value under a and nothing under b, and a warning for b.json is
  printed; the mapping is exactly a with that value when, in addition, a.json and b.json
  are the only regular files of the directory whose names end in .json.
\<close>

theorem loadJsonFiles_skips_bad_files:
  assumes "existsSync env dirPath" and "readdirSync env dirPath = Inr entries"
  shows "\<exists>files ws.
           loadJsonFiles env dirPath out = (Inr files, out @ ws) \<and>
           files = foldl (store env dirPath) Map.empty (filter (loads env dirPath) entries) \<and>
           ws = map (warning_for env dirPath) (filter (fails env dirPath) entries) \<and>
           (\<lparr>name = ''a.json'', kind = KFile\<rparr> \<in> set entries \<and>
            \<lparr>name = ''b.json'', kind = KFile\<rparr> \<in> set entries \<and>
            readFileSync env (path_join env dirPath ''a.json'') = Inr ta \<and>
            JSON_parse env ta = Inr v \<and>
            readFileSync env (path_join env dirPath ''b.json'') = Inr tb \<and>
            JSON_parse env tb = Inl err \<longrightarrow>
              files ''a'' = Some v \<and> files ''b'' = None \<and> warning ''b.json'' err \<in> set ws \<and>
              ((\<forall>e \<in> set entries. json_file e \<longrightarrow> name e = ''a.json'' \<or> name e = ''b.json'') \<longrightarrow>
                 files = [''a'' \<mapsto> v] \<and> set ws = {warning ''b.json'' err}))"
  using loadJsonFiles_eq [OF assms, of out]
    a_valid_b_invalid [of entries env dirPath ta v tb err]
  by (intro exI conjI impI) (assumption | rule refl | blast)+

lemma component_readdir:
  "readdirSync (posix_env sample_parse component_root) ''core/Schemas'' =
     Inr [\<lparr>name = ''a.json'', kind = KFile\<rparr>, \<lparr>name = ''notes.txt'', kind = KFile\<rparr>,
          \<lparr>name = ''b.json'', kind = KFile\<rparr>, \<lparr>name = ''old.json'', kind = KDirectory\<rparr>]"
  by (simp add: posix_eval component_root_def)

theorem loadJsonFiles_skips_bad_files_witness:
  \<open>loadJsonFiles (posix_env sample_parse component_root) ''core/Schemas'' [] =
     (Inr [''a'' \<mapsto> JObject [(''x'', JNumber 1)]],
      [''Warning: Could not load b.json: Unexpected end of JSON input''])\<close>
proof -
  let ?E = "posix_env sample_parse component_root"
  let ?entries = "[\<lparr>name = ''a.json'', kind = KFile\<rparr>, \<lparr>name = ''notes.txt'', kind = KFile\<rparr>,
          \<lparr>name = ''b.json'', kind = KFile\<rparr>, \<lparr>name = ''old.json'', kind = KDirectory\<rparr>]"
  have ex: "existsSync ?E ''core/Schemas''"
    by (simp add: posix_eval component_root_def)
  have ra: \<open>readFileSync ?E (path_join ?E ''core/Schemas'' ''a.json'') = Inr ''{"x":1}''\<close>
    by (simp add: posix_eval component_root_def)
  have pa: \<open>JSON_parse ?E ''{"x":1}'' = Inr (JObject [(''x'', JNumber 1)])\<close>
    by (simp add: posix_env_def sample_parse_def)
  have rb: \<open>readFileSync ?E (path_join ?E ''core/Schemas'' ''b.json'') = Inr ''{''\<close>
    by (simp add: posix_eval component_root_def)
  have pb: \<open>JSON_parse ?E ''{'' = Inl (SyntaxError ''Unexpected end of JSON input'')\<close>
    by (simp add: posix_env_def sample_parse_def)
  have only: "\<forall>e \<in> set ?entries. json_file e \<longrightarrow> name e = ''a.json'' \<or> name e = ''b.json''"
    by (simp add: json_file_def isFile_def endsWith_def suffix_to_prefix)
  from loadJsonFiles_skips_bad_files [OF ex component_readdir,
      of "[]" \<open>''{"x":1}''\<close> "JObject [(''x'', JNumber 1)]" "''{''"
         "SyntaxError ''Unexpected end of JSON input''"]
  obtain files ws where
    r: "loadJsonFiles ?E ''core/Schemas'' [] = (Inr files, [] @ ws)" and
    f: "files = [''a'' \<mapsto> JObject [(''x'', JNumber 1)]]" and
    l: "ws = map (warning_for ?E ''core/Schemas'') (filter (fails ?E ''core/Schemas'') ?entries)"
    using ra pa rb pb only by auto
  from l ra pa rb pb
  have "ws = [warning ''b.json'' (SyntaxError ''Unexpected end of JSON input'')]"
    by (simp add: fails_def json_file_def isFile_def endsWith_def suffix_to_prefix
        read_json_def warning_for_def)
  with r f show ?thesis by (simp add: warning_def)
qed


text \<open>
  Without that addition the mapping need not be exactly a: in a directory that holds
  a.json, b.json and a third file c.json that parses, loadJsonFiles returns the keys a
  and c.
\<close>

theorem loadJsonFiles_third_file_counterexample:
  \<open>existsSync (posix_env sample_parse three_files_root) ''core/Schemas'' \<and>
   readdirSync (posix_env sample_parse three_files_root) ''core/Schemas'' =
     Inr [\<lparr>name = ''a.json'', kind = KFile\<rparr>, \<lparr>name = ''b.json'', kind = KFile\<rparr>,
          \<lparr>name = ''c.json'', kind = KFile\<rparr>] \<and>
   read_json (posix_env sample_parse three_files_root) ''core/Schemas''
     \<lparr>name = ''a.json'', kind = KFile\<rparr> = Inr (JObject [(''x'', JNumber 1)]) \<and>
   read_json (posix_env sample_parse three_files_root) ''core/Schemas''
     \<lparr>name = ''b.json'', kind = KFile\<rparr> = Inl (SyntaxError ''Unexpected end of JSON input'') \<and>
   loadJsonFiles (posix_env sample_parse three_files_root) ''core/Schemas'' [] =
     (Inr [''a'' \<mapsto> JObject [(''x'', JNumber 1)],
           ''c'' \<mapsto> JObject [(''key'', JString ''flow1'')]],
      [''Warning: Could not load b.json: Unexpected end of JSON input'']) \<and>
   fst (loadJsonFiles (posix_env sample_parse three_files_root) ''core/Schemas'' []) \<noteq>
     Inr [''a'' \<mapsto> JObject [(''x'', JNumber 1)]]\<close>
proof -
  have run: \<open>loadJsonFiles (posix_env sample_parse three_files_root) ''core/Schemas'' [] =
     (Inr [''a'' \<mapsto> JObject [(''x'', JNumber 1)],
           ''c'' \<mapsto> JObject [(''key'', JString ''flow1'')]],
      [''Warning: Could not load b.json: Unexpected end of JSON input''])\<close>
    by (simp add: loadJsonFiles_def tryLoad_def obj_set_def sample_parse_def warning_def
        posix_eval three_files_root_def)
  have "[''a'' \<mapsto> JObject [(''x'', JNumber (1::nat))],
         ''c'' \<mapsto> JObject [(''key'', JString ''flow1'')]] ''c'' \<noteq>
        [''a'' \<mapsto> JObject [(''x'', JNumber 1)]] ''c''"
    by simp
  then have differ: "[''a'' \<mapsto> JObject [(''x'', JNumber (1::nat))],
         ''c'' \<mapsto> JObject [(''key'', JString ''flow1'')]] \<noteq>
        [''a'' \<mapsto> JObject [(''x'', JNumber 1)]]"
    by metis
  have rest: \<open>existsSync (posix_env sample_parse three_files_root) ''core/Schemas'' \<and>
   readdirSync (posix_env sample_parse three_files_root) ''core/Schemas'' =
     Inr [\<lparr>name = ''a.json'', kind = KFile\<rparr>, \<lparr>name = ''b.json'', kind = KFile\<rparr>,
          \<lparr>name = ''c.json'', kind = KFile\<rparr>] \<and>
   read_json (posix_env sample_parse three_files_root) ''core/Schemas''
     \<lparr>name = ''a.json'', kind = KFile\<rparr> = Inr (JObject [(''x'', JNumber 1)]) \<and>
   read_json (posix_env sample_parse three_files_root) ''core/Schemas''
     \<lparr>name = ''b.json'', kind = KFile\<rparr> = Inl (SyntaxError ''Unexpected end of JSON input'')\<close>
    by (simp add: read_json_def sample_parse_def posix_eval three_files_root_def)
  from rest run differ show ?thesis by simp
qed


text \<open>
  C5, on a directory that holds the one file a.jsonb.json with a text that parses:
  loadJsonFiles stores the parsed value under the key ab.json, the name with its first
  occurrence of .json removed, and not under a.jsonb, the name with the suffix
  stripped.
\<close>

theorem loadJsonFiles_inner_json_key:
  \<open>loadJsonFiles (posix_env sample_parse suffix_root) ''core/Schemas'' [] =
     (Inr [''ab.json'' \<mapsto> JObject [(''x'', JNumber 1)]], [])\<close>
  by (simp add: loadJsonFiles_def tryLoad_def obj_set_def sample_parse_def posix_eval suffix_root_def
      suffix_to_prefix)

subsection \<open>The accessors\<close>

text \<open>
  C6. getDomainConfig returns null when reading vnext.config.json throws (the file is
  absent or unreadable), returns the parsed value when the file is read and its text
  parses, and returns null, without throwing, when the text does not parse.
\<close>

theorem getDomainConfig_null_or_parsed:
  "(readFileSync env ''vnext.config.json'' = Inl error \<longrightarrow> getDomainConfig env = JNull) \<and>
   (readFileSync env ''vnext.config.json'' = Inr text \<and> JSON_parse env text = Inr v \<longrightarrow>
      getDomainConfig env = v) \<and>
   (readFileSync env ''vnext.config.json'' = Inr text \<and> JSON_parse env text = Inl error' \<longrightarrow>
      getDomainConfig env = JNull)"
  by (simp add: getDomainConfig_def)

theorem getDomainConfig_null_or_parsed_witness:
  "getDomainConfig (posix_env sample_parse no_domain_root) = JNull \<and>
   getDomainConfig (posix_env sample_parse scenario_root) =
     JObject [(''domain'', JString ''core'')] \<and>
   getDomainConfig (posix_env sample_parse malformed_config_root) = JNull"
proof -
  have a: "readFileSync (posix_env sample_parse no_domain_root) ''vnext.config.json'' =
      Inl (SystemError ''ENOENT'' (''ENOENT: no such file or directory, open '' @ quoted ''vnext.config.json''))"
    by (simp add: posix_eval no_domain_root_def)
  have b: \<open>readFileSync (posix_env sample_parse scenario_root) ''vnext.config.json'' =
        Inr ''{"domain":"core"}'' \<and>
      JSON_parse (posix_env sample_parse scenario_root) ''{"domain":"core"}'' =
        Inr (JObject [(''domain'', JString ''core'')])\<close>
    by (simp add: posix_eval scenario_root_def sample_parse_def)
  have c: \<open>readFileSync (posix_env sample_parse malformed_config_root) ''vnext.config.json'' =
        Inr ''{'' \<and>
      JSON_parse (posix_env sample_parse malformed_config_root) ''{'' =
        Inl (SyntaxError ''Unexpected end of JSON input'')\<close>
    by (simp add: posix_eval malformed_config_root_def sample_parse_def)
  from a getDomainConfig_null_or_parsed [of "posix_env sample_parse no_domain_root"]
  have 1: "getDomainConfig (posix_env sample_parse no_domain_root) = JNull"
    by blast
  from b getDomainConfig_null_or_parsed [of "posix_env sample_parse scenario_root"]
  have 2: "getDomainConfig (posix_env sample_parse scenario_root) =
      JObject [(''domain'', JString ''core'')]"
    by blast
  from c getDomainConfig_null_or_parsed [of "posix_env sample_parse malformed_config_root"]
  have 3: "getDomainConfig (posix_env sample_parse malformed_config_root) = JNull"
    by blast
  from 1 2 3 show ?thesis by simp
qed

text \<open>
  C8. getAvailableTypes returns the list schemas, workflows, tasks, views, functions,
  extensions, in this order, whatever the runtime and the file system are, and prints
  nothing.
\<close>

theorem getAvailableTypes_static:
  "module_exports GetAvailableTypes env out =
     (Inr (VTypes [''schemas'', ''workflows'', ''tasks'', ''views'', ''functions'',
                   ''extensions'']), out)"
  by (simp add: getAvailableTypes_def)

theorem getAvailableTypes_static_witness:
  "module_exports GetAvailableTypes denied_env [] =
     (Inr (VTypes [''schemas'', ''workflows'', ''tasks'', ''views'', ''functions'',
                   ''extensions'']), [])"
  using getAvailableTypes_static [of denied_env "[]"] by simp

text \<open>
  C9. Every accessor of the module, called twice in a row on the same runtime and file
  system, returns the same outcome both times: the console, which is all that the first
  call can have changed, has no influence on the result.
\<close>

theorem accessors_repeatable:
  "fst (module_exports acc env (snd (module_exports acc env out))) =
   fst (module_exports acc env out)"
proof (cases acc)
  case GetSchemas
  then show ?thesis
    using getComponent_result_console [of "''Schemas''" env "snd (getComponent ''Schemas'' env out)" out]
    by (simp add: returning_def getSchemas_def)
next
  case GetWorkflows
  then show ?thesis
    using getComponent_result_console [of "''Workflows''" env "snd (getComponent ''Workflows'' env out)" out]
    by (simp add: returning_def getWorkflows_def)
next
  case GetTasks
  then show ?thesis
    using getComponent_result_console [of "''Tasks''" env "snd (getComponent ''Tasks'' env out)" out]
    by (simp add: returning_def getTasks_def)
next
  case GetViews
  then show ?thesis
    using getComponent_result_console [of "''Views''" env "snd (getComponent ''Views'' env out)" out]
    by (simp add: returning_def getViews_def)
next
  case GetFunctions
  then show ?thesis
    using getComponent_result_console [of "''Functions''" env "snd (getComponent ''Functions'' env out)" out]
    by (simp add: returning_def getFunctions_def)
next
  case GetExtensions
  then show ?thesis
    using getComponent_result_console [of "''Extensions''" env "snd (getComponent ''Extensions'' env out)" out]
    by (simp add: returning_def getExtensions_def)
qed (simp_all add: returning_def)

theorem accessors_repeatable_witness:
  "snd (module_exports GetSchemas (posix_env sample_parse component_root) []) =
     [''Warning: Could not load b.json: Unexpected end of JSON input''] \<and>
   fst (module_exports GetSchemas (posix_env sample_parse component_root)
          [''Warning: Could not load b.json: Unexpected end of JSON input'']) =
   fst (module_exports GetSchemas (posix_env sample_parse component_root) [])"
proof -
  have printed: "snd (module_exports GetSchemas (posix_env sample_parse component_root) []) =
      [''Warning: Could not load b.json: Unexpected end of JSON input'']"
    by (simp add: returning_def getSchemas_def getComponent_def findDomainDirectory_def
        loadJsonFiles_def tryLoad_def obj_set_def sample_parse_def warning_def posix_eval
        component_root_def)
  from accessors_repeatable [of GetSchemas "posix_env sample_parse component_root" "[]"]
  have "fst (module_exports GetSchemas (posix_env sample_parse component_root)
          [''Warning: Could not load b.json: Unexpected end of JSON input'']) =
      fst (module_exports GetSchemas (posix_env sample_parse component_root) [])"
    by (simp only: printed)
  with printed show ?thesis
    by (rule conjI)
qed

end
